theory Spec2Isabelle
  imports Main "HOL-Library.Word"
begin

unbundle bit_operations_syntax

section \<open>Bytes, buffers and the errors of the Buffer API\<close>

text \<open>
  A Node \<open>Buffer\<close> is a fixed-length sequence of octets. The exceptions that the code of
  \<open>server.js\<close> can raise are values of \<open>error\<close>:
  \<^item> \<open>ValueOutOfBounds\<close>: \<open>writeUInt8\<close>/\<open>writeUInt16BE\<close> called with a value outside the
    range of the field (Node checks the value unless \<open>noAssert\<close> is passed, and the
    source never passes it);
  \<^item> \<open>IndexOutOfRange\<close>: a write past the end of the buffer;
  \<^item> \<open>CannotSend\<close>: the \<open>Error('Cannot send object. Must be string or Buffer')\<close> of \<open>send\<close>;
  \<^item> \<open>ConnectionClosed\<close>: the failure of a send on a closed connection;
  \<^item> \<open>ListenerThrew\<close>: an exception thrown by a listener of the application, which
    leaves \<open>emit\<close> and the handler that called it.
\<close>

type_synonym byte = "8 word"
type_synonym buffer = "byte list"

datatype error =
  ValueOutOfBounds | IndexOutOfRange | CannotSend | ConnectionClosed | ListenerThrew

text \<open>
  \<open>new Buffer(n)\<close> allocates \<open>n\<close> octets without clearing them (older Node) or zero-filled
  (newer Node). The previous contents of the memory are the parameter \<open>junk\<close>, so that every
  result below holds for both.
\<close>

definition new_Buffer :: "(nat \<Rightarrow> byte) \<Rightarrow> nat \<Rightarrow> buffer" where
  "new_Buffer junk n = map junk [0..<n]"

text \<open>The contents of a zero-filled allocation.\<close>

definition zero_filled :: "nat \<Rightarrow> byte" where
  "zero_filled i = 0"

text \<open>\<open>buf[i]\<close>: \<open>undefined\<close> (here \<open>None\<close>) outside the buffer.\<close>

definition buf_get :: "buffer \<Rightarrow> nat \<Rightarrow> byte option" where
  "buf_get buf i = (if i < length buf then Some (buf ! i) else None)"

text \<open>
  The operand of \<open>^\<close> is converted with ToInt32, which maps \<open>undefined\<close> to 0.
\<close>

definition to_operand :: "byte option \<Rightarrow> byte" where
  "to_operand v = (case v of None \<Rightarrow> 0 | Some b \<Rightarrow> b)"

text \<open>
  \<open>buf.writeUInt8(value, offset)\<close>: the value is checked first, then the offset.
\<close>

definition writeUInt8 :: "int \<Rightarrow> nat \<Rightarrow> buffer \<Rightarrow> error + buffer" where
  "writeUInt8 v off buf =
     (if v < 0 \<or> 255 < v then Inl ValueOutOfBounds
      else if length buf < off + 1 then Inl IndexOutOfRange
      else Inr (buf[off := word_of_int v]))"

definition writeUInt16BE :: "int \<Rightarrow> nat \<Rightarrow> buffer \<Rightarrow> error + buffer" where
  "writeUInt16BE v off buf =
     (if v < 0 \<or> 65535 < v then Inl ValueOutOfBounds
      else if length buf < off + 2 then Inl IndexOutOfRange
      else Inr (buf[off := word_of_int (v div 256), off + 1 := word_of_int (v mod 256)]))"

text \<open>
  \<open>source.copy(target, targetStart)\<close> copies as much of \<open>source\<close> as fits into \<open>target\<close>
  from \<open>targetStart\<close> on; the length of \<open>target\<close> never changes.
\<close>

definition copy :: "buffer \<Rightarrow> buffer \<Rightarrow> nat \<Rightarrow> buffer" where
  "copy source target targetStart =
     take targetStart target @ take (length target - targetStart) source
       @ drop (targetStart + length source) target"

text \<open>Sequencing of calls that may throw.\<close>

definition and_then :: "error + 'a \<Rightarrow> ('a \<Rightarrow> error + 'b) \<Rightarrow> error + 'b" where
  "and_then r f = (case r of Inl e \<Rightarrow> Inl e | Inr x \<Rightarrow> f x)"

text \<open>
  The bitwise operators of JavaScript convert their operands to 32-bit two's complement
  integers and give such an integer.
\<close>

definition js_or :: "int \<Rightarrow> int \<Rightarrow> int" where
  "js_or x y = sint ((word_of_int x :: 32 word) OR word_of_int y)"

definition js_shl :: "int \<Rightarrow> nat \<Rightarrow> int" where
  "js_shl x n = sint (push_bit (n mod 32) (word_of_int x :: 32 word))"

section \<open>unmask\<close>

text \<open>
  \<^verbatim>\<open>
  const unmask = (maskBytes, data) => {
    const payload = new Buffer(data.length);
    for (let i = 0; i < data.length ; ++i) {
      payload[i] = maskBytes[i % 4] ^ data[i];
    }
    return payload
  };
  \<close>
\<close>

function unmask_loop :: "buffer \<Rightarrow> buffer \<Rightarrow> nat \<Rightarrow> buffer \<Rightarrow> buffer" where
  "unmask_loop maskBytes data i payload =
     (if i < length data
      then unmask_loop maskBytes data (Suc i)
             (payload[i := to_operand (buf_get maskBytes (i mod 4)) XOR to_operand (buf_get data i)])
      else payload)"
  by pat_completeness auto
termination
  by (relation "measure (\<lambda>(maskBytes, data, i, payload). length data - i)") auto

declare unmask_loop.simps [simp del]

definition unmask :: "(nat \<Rightarrow> byte) \<Rightarrow> buffer \<Rightarrow> buffer \<Rightarrow> buffer" where
  "unmask junk maskBytes data = unmask_loop maskBytes data 0 (new_Buffer junk (length data))"

section \<open>Opcodes and encodeMessage\<close>

text \<open>
  \<^verbatim>\<open>const OP_CODES = { TEXT: 1, BINARY: 2, CLOSE: 8, PING: 9, PONG: 10 };\<close>
\<close>

definition OP_CODES_TEXT :: int where "OP_CODES_TEXT = 1"
definition OP_CODES_BINARY :: int where "OP_CODES_BINARY = 2"
definition OP_CODES_CLOSE :: int where "OP_CODES_CLOSE = 8"
definition OP_CODES_PING :: int where "OP_CODES_PING = 9"
definition OP_CODES_PONG :: int where "OP_CODES_PONG = 10"

definition recognized :: "int \<Rightarrow> bool" where
  "recognized opcode \<longleftrightarrow> opcode \<in> {OP_CODES_TEXT, OP_CODES_BINARY, OP_CODES_CLOSE, OP_CODES_PING, OP_CODES_PONG}"

text \<open>
  \<open>encodeMessage(opcode, payload)\<close>. Each branch allocates the frame, writes the two header
  octets with \<open>writeUInt8\<close>, then the extended length, then copies the payload. In the last
  branch the source writes \<open>buf.writeUInt8(0, 2)\<close> and \<open>buf.writeUInt8(length, 6)\<close>.
\<close>

definition encodeMessage :: "(nat \<Rightarrow> byte) \<Rightarrow> int \<Rightarrow> buffer \<Rightarrow> error + buffer" where
  "encodeMessage junk opcode payload =
     (let b1 = js_or 0x80 opcode;
          b2 = 0;
          len = int (length payload)
      in if len < 126 then
           (let buf = new_Buffer junk (length payload + 2 + 0);
                b2 = js_or b2 len
            in and_then (writeUInt8 b1 0 buf) (\<lambda>buf.
               and_then (writeUInt8 b2 1 buf) (\<lambda>buf.
               Inr (copy payload buf 2))))
         else if len < js_shl 1 16 then
           (let buf = new_Buffer junk (length payload + 2 + 2);
                b2 = js_or b2 126
            in and_then (writeUInt8 b1 0 buf) (\<lambda>buf.
               and_then (writeUInt8 b2 1 buf) (\<lambda>buf.
               and_then (writeUInt16BE len 2 buf) (\<lambda>buf.
               Inr (copy payload buf 4)))))
         else
           (let buf = new_Buffer junk (length payload + 2 + 8);
                b2 = js_or b2 127
            in and_then (writeUInt8 b1 0 buf) (\<lambda>buf.
               and_then (writeUInt8 b2 1 buf) (\<lambda>buf.
               and_then (writeUInt8 0 2 buf) (\<lambda>buf.
               and_then (writeUInt8 len 6 buf) (\<lambda>buf.
               Inr (copy payload buf 10)))))))"

section \<open>The handshake key\<close>

text \<open>
  \<open>crypto.createHash('sha1')\<close> and \<open>digest('base64')\<close> are Node's; they are modelled by
  SHA-1 as specified in FIPS 180-4 and by the base64 encoding of RFC 4648. The 32-bit words
  of SHA-1 are natural numbers below \<open>2 ^ 32\<close>, with the wrap-around written out.
\<close>

definition add32 :: "nat \<Rightarrow> nat \<Rightarrow> nat" where
  "add32 x y = (x + y) mod 4294967296"

definition rotl :: "nat \<Rightarrow> nat \<Rightarrow> nat" where
  "rotl n x = (x * 2 ^ n) mod 4294967296 OR x div 2 ^ (32 - n)"

definition not32 :: "nat \<Rightarrow> nat" where
  "not32 x = x XOR 4294967295"

fun words_of :: "byte list \<Rightarrow> nat list" where
  "words_of (a # b # c # d # bs) =
     (unat a * 16777216 + unat b * 65536 + unat c * 256 + unat d) # words_of bs"
| "words_of _ = []"

definition bytes_of_u32 :: "nat \<Rightarrow> byte list" where
  "bytes_of_u32 w = [of_nat (w div 16777216), of_nat (w div 65536), of_nat (w div 256), of_nat w]"

definition sha1_pad :: "byte list \<Rightarrow> byte list" where
  "sha1_pad m =
     (let l = length m; z = (119 - l mod 64) mod 64
      in m @ [0x80] @ replicate z 0 @ bytes_of_u32 (8 * l div 4294967296)
           @ bytes_of_u32 (8 * l mod 4294967296))"

fun sha1_schedule :: "nat \<Rightarrow> nat list \<Rightarrow> nat list" where
  "sha1_schedule 0 ws = []"
| "sha1_schedule (Suc n) ws =
     hd ws # sha1_schedule n (tl ws @ [rotl 1 (ws ! 13 XOR ws ! 8 XOR ws ! 2 XOR ws ! 0)])"

definition sha1_f :: "nat \<Rightarrow> nat \<Rightarrow> nat \<Rightarrow> nat \<Rightarrow> nat" where
  "sha1_f t b c d =
     (if t < 20 then (b AND c) OR (not32 b AND d)
      else if t < 40 then b XOR c XOR d
      else if t < 60 then (b AND c) OR (b AND d) OR (c AND d)
      else b XOR c XOR d)"

definition sha1_k :: "nat \<Rightarrow> nat" where
  "sha1_k t = (if t < 20 then 0x5A827999 else if t < 40 then 0x6ED9EBA1
               else if t < 60 then 0x8F1BBCDC else 0xCA62C1D6)"

type_synonym sha1_state = "nat \<times> nat \<times> nat \<times> nat \<times> nat"

fun sha1_rounds :: "nat \<Rightarrow> nat list \<Rightarrow> sha1_state \<Rightarrow> sha1_state" where
  "sha1_rounds t [] s = s"
| "sha1_rounds t (w # ws) (a, b, c, d, e) =
     sha1_rounds (t + 1) ws
       (add32 (add32 (add32 (add32 (rotl 5 a) (sha1_f t b c d)) e) (sha1_k t)) w,
        a, rotl 30 b, c, d)"

definition sha1_block :: "sha1_state \<Rightarrow> byte list \<Rightarrow> sha1_state" where
  "sha1_block h blk =
     (case h of (h0, h1, h2, h3, h4) \<Rightarrow>
        (case sha1_rounds 0 (sha1_schedule 80 (words_of blk)) h of
           (a, b, c, d, e) \<Rightarrow> (add32 h0 a, add32 h1 b, add32 h2 c, add32 h3 d, add32 h4 e)))"

fun sha1_blocks :: "nat \<Rightarrow> sha1_state \<Rightarrow> byte list \<Rightarrow> sha1_state" where
  "sha1_blocks 0 h bs = h"
| "sha1_blocks (Suc n) h bs = sha1_blocks n (sha1_block h (take 64 bs)) (drop 64 bs)"

definition sha1_digest :: "sha1_state \<Rightarrow> byte list" where
  "sha1_digest s = (case s of (a, b, c, d, e) \<Rightarrow>
     bytes_of_u32 a @ bytes_of_u32 b @ bytes_of_u32 c @ bytes_of_u32 d @ bytes_of_u32 e)"

definition sha1 :: "byte list \<Rightarrow> byte list" where
  "sha1 m =
     (let p = sha1_pad m
      in sha1_digest (sha1_blocks (length p div 64)
           (0x67452301, 0xEFCDAB89, 0x98BADCFE, 0x10325476, 0xC3D2E1F0) p))"

definition b64_alphabet :: string where
  "b64_alphabet = ''ABCDEFGHIJKLMNOPQRSTUVWXYZabcdefghijklmnopqrstuvwxyz0123456789+/''"

definition b64_char :: "nat \<Rightarrow> char" where
  "b64_char n = b64_alphabet ! (n mod 64)"

fun base64 :: "byte list \<Rightarrow> string" where
  "base64 [] = []"
| "base64 [a] =
     (let n = unat a in [b64_char (n div 4), b64_char (n mod 4 * 16), CHR ''='', CHR ''=''])"
| "base64 [a, b] =
     (let n = unat a * 256 + unat b
      in [b64_char (n div 1024), b64_char (n div 16), b64_char (n mod 16 * 4), CHR ''=''])"
| "base64 (a # b # c # rest) =
     (let n = unat a * 65536 + unat b * 256 + unat c
      in b64_char (n div 262144) # b64_char (n div 4096) # b64_char (n div 64) # b64_char n
         # base64 rest)"

text \<open>
  \<open>update(s, 'ascii')\<close> takes one octet per character of the string. The characters of a
  request header are octets (Node decodes headers as latin1), as those of \<open>string\<close> are.
\<close>

definition ascii_bytes :: "string \<Rightarrow> byte list" where
  "ascii_bytes s = map (\<lambda>c. of_nat (of_char c)) s"

text \<open>
  \<^verbatim>\<open>
  const KEY_SUFFIX = '258EAFA5-E914-47DA-95CA-C5ABODC85B11';

  const hashWebSocketKey = key => {
    const shah1 = crypto.createHash('sha1');
    shah1.update(key + KEY_SUFFIX, 'ascii');
    return shah1.digest('base64');
  };
  \<close>
  The argument is \<open>req.headers['sec-websocket-key']\<close>: \<open>undefined\<close> (here \<open>None\<close>) when the
  request has no such header, and then \<open>key + KEY_SUFFIX\<close> starts with the text \<open>undefined\<close>.
\<close>

definition KEY_SUFFIX :: string where
  "KEY_SUFFIX = ''258EAFA5-E914-47DA-95CA-C5ABODC85B11''"

definition js_concat_operand :: "string option \<Rightarrow> string" where
  "js_concat_operand v = (case v of None \<Rightarrow> ''undefined'' | Some s \<Rightarrow> s)"

definition hashWebSocketKey :: "string option \<Rightarrow> string" where
  "hashWebSocketKey key = base64 (sha1 (ascii_bytes (js_concat_operand key @ KEY_SUFFIX)))"

text \<open>
  The globally unique identifier of RFC 6455, section 1.3, which the handshake of the
  protocol appends to the client's key.
\<close>

definition RFC6455_GUID :: string where
  "RFC6455_GUID = ''258EAFA5-E914-47DA-95CA-C5AB0DC85B11''"

section \<open>WebSocketConnection\<close>

text \<open>
  The state of a connection: what has been written to its socket (the argument of each
  \<open>socket.write\<close>, in order), the receive buffer, the closed flag, the events it has
  emitted, in order, and the listeners the application has registered for its \<open>close\<close>
  event. A listener is application code: called with the close code, it returns or throws.
\<close>

datatype chunk = Text string | Bytes buffer

datatype event = CloseEvent int | DataEvent int buffer

datatype outcome = Returns | Throws

record connection =
  socket :: "chunk list"
  buffer :: buffer
  closed :: bool
  emitted :: "event list"
  close_listeners :: "(int \<Rightarrow> outcome) list"

text \<open>
  \<open>conn.on('close', listener)\<close>, which the class inherits from \<open>EventEmitter\<close> and
  \<open>index.js\<close> calls.
\<close>

definition on_close :: "(int \<Rightarrow> outcome) \<Rightarrow> connection \<Rightarrow> connection" where
  "on_close listener c = c\<lparr>close_listeners := close_listeners c @ [listener]\<rparr>"

text \<open>
  \<open>this.emit('close', code)\<close>: the event is emitted and its listeners are called one after
  the other, inside the call. An exception of a listener ends the call and is thrown to
  the caller of \<open>emit\<close>.
\<close>

definition emit_close :: "int \<Rightarrow> connection \<Rightarrow> error option \<times> connection" where
  "emit_close code c =
     (if list_ex (\<lambda>listener. listener code = Throws) (close_listeners c)
      then Some ListenerThrew else None,
      c\<lparr>emitted := emitted c @ [CloseEvent code]\<rparr>)"

text \<open>A listener that throws, and one that returns.\<close>

definition throwing_listener :: "int \<Rightarrow> outcome" where
  "throwing_listener code = Throws"

definition returning_listener :: "int \<Rightarrow> outcome" where
  "returning_listener code = Returns"

definition CR :: char where "CR = CHR 0x0D"
definition LF :: char where "LF = CHR 0x0A"

text \<open>
  The template literal of the constructor. A line break inside a template literal is a
  line feed; \<open>\r\<close> and \<open>\n\<close> are the escapes written in the source; the continuation lines
  of the source are indented by six spaces.
  \<^verbatim>\<open>
      socket.write(`HTTP/1.1 101 Web Socket Protocol Handshake \r
        Upgrade: WebSocket \r
        Connection: Upgrade \r
        sec-websocket-accept: ${key}
        \r\n\r\n`);
  \<close>
\<close>

definition handshake_response :: "string \<Rightarrow> string" where
  "handshake_response key =
     ''HTTP/1.1 101 Web Socket Protocol Handshake '' @ [CR, LF] @
     ''      Upgrade: WebSocket '' @ [CR, LF] @
     ''      Connection: Upgrade '' @ [CR, LF] @
     ''      sec-websocket-accept: '' @ key @ [LF] @
     ''      '' @ [CR, LF, CR, LF]"

text \<open>
  A line feed that no carriage return precedes, in a text that follows the character
  \<open>prev\<close>: a line of the text that does not end with CRLF.
\<close>

fun has_bare_LF :: "char \<Rightarrow> string \<Rightarrow> bool" where
  "has_bare_LF prev [] = False"
| "has_bare_LF prev (c # cs) = ((c = LF \<and> prev \<noteq> CR) \<or> has_bare_LF c cs)"

text \<open>
  The constructor: computes the key, writes the response, registers the handlers and
  initialises \<open>buffer\<close> and \<open>closed\<close>. \<open>headers\<close> are the request's headers, \<open>sock\<close> what
  the socket has been written so far.
\<close>

definition WebSocketConnection :: "(string \<rightharpoonup> string) \<Rightarrow> chunk list \<Rightarrow> connection" where
  "WebSocketConnection headers sock =
     (let key = hashWebSocketKey (headers ''sec-websocket-key'')
      in \<lparr>socket = sock @ [Text (handshake_response key)], buffer = [],
          closed = False, emitted = [], close_listeners = []\<rparr>)"

text \<open>
  The handler of the socket's \<open>close\<close> event:
  \<^verbatim>\<open>
      socket.on('close', (had_error) => {
        if(!this.closed) {
          this.emit('close', 1006);
          this.closed = true;
        }
      });
  \<close>
  The flag is set after \<open>emit\<close> has returned: when a listener throws, the exception
  leaves the handler before \<open>this.closed = true\<close>. The result is the exception, if any,
  and the state of the connection.
\<close>

definition on_socket_close :: "bool \<Rightarrow> connection \<Rightarrow> error option \<times> connection" where
  "on_socket_close had_error c =
     (if \<not> closed c then
        (case emit_close 1006 c of
           (Some e, c') \<Rightarrow> (Some e, c')
         | (None, c') \<Rightarrow> (None, c'\<lparr>closed := True\<rparr>))
      else (None, c))"

text \<open>
  The signals of the underlying socket. The constructor registers a handler for \<open>close\<close>
  (and one for \<open>data\<close>) and none for \<open>error\<close>, so an \<open>error\<close> signal runs no code of the
  connection. An exception that leaves the \<open>close\<close> handler leaves the connection in the
  state the handler reached.
\<close>

datatype signal = SocketClose bool | SocketError

fun deliver :: "connection \<Rightarrow> signal \<Rightarrow> connection" where
  "deliver c (SocketClose had_error) = snd (on_socket_close had_error c)"
| "deliver c SocketError = c"

text \<open>The state after each signal of a sequence, the initial state first.\<close>

fun trace :: "connection \<Rightarrow> signal list \<Rightarrow> connection list" where
  "trace c [] = [c]"
| "trace c (s # ss) = c # trace (deliver c s) ss"

definition is_close :: "event \<Rightarrow> bool" where
  "is_close ev = (case ev of CloseEvent _ \<Rightarrow> True | DataEvent _ _ \<Rightarrow> False)"

definition close_events :: "connection \<Rightarrow> nat" where
  "close_events c = length (filter is_close (emitted c))"

text \<open>No listener of the connection throws when called with the code 1006.\<close>

definition listeners_return :: "connection \<Rightarrow> bool" where
  "listeners_return c = (\<not> list_ex (\<lambda>listener. listener 1006 = Throws) (close_listeners c))"

section \<open>send\<close>

text \<open>
  The values \<open>send\<close> can be called with: a \<open>Buffer\<close>, a primitive string (a sequence of
  UTF-16 code units), or any other value.
\<close>

datatype js_value =
    JSBuffer buffer
  | JSString "16 word list"
  | JSNumber int
  | JSBoolean bool
  | JSUndefined
  | JSNull
  | JSObject

text \<open>
  \<open>new Buffer(str, 'utf8')\<close>: the UTF-8 encoding of the string; a surrogate pair is one code
  point of four octets, an unpaired surrogate becomes U+FFFD.
\<close>

fun utf8_encode :: "16 word list \<Rightarrow> buffer" where
  "utf8_encode [] = []"
| "utf8_encode (c # cs) =
     (let u = unat c in
      if u < 0x80 then of_nat u # utf8_encode cs
      else if u < 0x800 then
        of_nat (0xC0 + u div 64) # of_nat (0x80 + u mod 64) # utf8_encode cs
      else if 0xD800 \<le> u \<and> u < 0xDC00 then
        (case cs of
           [] \<Rightarrow> [0xEF, 0xBF, 0xBD]
         | d # ds \<Rightarrow>
             if 0xDC00 \<le> unat d \<and> unat d < 0xE000 then
               (let cp = 0x10000 + (u - 0xD800) * 1024 + (unat d - 0xDC00)
                in of_nat (0xF0 + cp div 262144) # of_nat (0x80 + cp div 4096 mod 64)
                   # of_nat (0x80 + cp div 64 mod 64) # of_nat (0x80 + cp mod 64)
                   # utf8_encode ds)
             else [0xEF, 0xBF, 0xBD] @ utf8_encode cs)
      else if 0xDC00 \<le> u \<and> u < 0xE000 then [0xEF, 0xBF, 0xBD] @ utf8_encode cs
      else of_nat (0xE0 + u div 4096) # of_nat (0x80 + u div 64 mod 64)
           # of_nat (0x80 + u mod 64) # utf8_encode cs)"

text \<open>
  Modelled from the spec: \<open>_doSend\<close>, which \<open>send\<close> calls with the opcode and the payload,
  is defined nowhere in the source. The spec, section 4.2: the opcode and payload are
  passed to the encoder and the resulting bytes written to the socket; no attempt is made
  to send if the connection is CLOSED, and sending on a closed connection fails distinctly.
  The result is the exception raised, if any, and the state of the connection.
\<close>

definition doSend ::
  "(nat \<Rightarrow> byte) \<Rightarrow> int \<Rightarrow> buffer \<Rightarrow> connection \<Rightarrow> error option \<times> connection" where
  "doSend junk opcode payload c =
     (if closed c then (Some ConnectionClosed, c)
      else case encodeMessage junk opcode payload of
             Inl e \<Rightarrow> (Some e, c)
           | Inr frame \<Rightarrow> (None, c\<lparr>socket := socket c @ [Bytes frame]\<rparr>))"

text \<open>
  \<^verbatim>\<open>
    send(obj) {
      let opcode;
      let payload;

      if(Buffer.isBuffer(obj)) {
        opcode = OP_CODES.BINARY;
        payload = obj;
      } else if (typeof obj == 'string') {
        opcode = OP_CODES.TEXT;
        // create a new buffer containing the UTF-8 encoded string
        payload = new Buffer(obj, 'utf8');
      } else {
        throw new Error('Cannot send object. Must be string or Buffer');
      }

      this._doSend(opcode, payload);
    }
  \<close>
\<close>

definition send ::
  "(nat \<Rightarrow> byte) \<Rightarrow> js_value \<Rightarrow> connection \<Rightarrow> error option \<times> connection" where
  "send junk obj c =
     (case obj of
        JSBuffer b \<Rightarrow> doSend junk OP_CODES_BINARY b c
      | JSString s \<Rightarrow> doSend junk OP_CODES_TEXT (utf8_encode s) c
      | _ \<Rightarrow> (Some CannotSend, c))"

section \<open>Decoding and the round trip\<close>

text \<open>
  A decoded frame: the fin bit, the opcode and the payload. \<open>be_nat\<close> is the number that
  a sequence of octets is in big-endian order.
\<close>

datatype frame = Frame bool int buffer

definition be_nat :: "buffer \<Rightarrow> nat" where
  "be_nat bs = foldl (\<lambda>n b. n * 256 + unat b) 0 bs"

text \<open>
  Modelled from the spec: the decoder, which the source calls as \<open>_processBuffer\<close> and
  defines nowhere. Spec, section 4.1, Decode: bit 7 of byte 0 is fin and bits 0 to 3 the
  opcode; bit 7 of byte 1 is the mask flag and bits 0 to 6 the length field; a length
  field below 126 is the payload length, 126 is followed by 2 and 127 by 8 bytes of
  big-endian length; the 4 bytes of the mask key follow when the mask flag is set, and the
  payload is unmasked with them; with fewer bytes than header and payload need, the
  result is incomplete and nothing is consumed. Bit 7 of an octet is set when its value is
  at least 128; its lower bits are the value modulo 128 (or 16).
\<close>

definition tryDecodeFrame :: "(nat \<Rightarrow> byte) \<Rightarrow> buffer \<Rightarrow> frame option \<times> nat" where
  "tryDecodeFrame junk buf =
     (if length buf < 2 then (None, 0)
      else
        let fin = (128 \<le> unat (buf ! 0));
            opcode = int (unat (buf ! 0) mod 16);
            masked = (128 \<le> unat (buf ! 1));
            len7 = unat (buf ! 1) mod 128;
            ext = (if len7 < 126 then 0 else if len7 = 126 then 2 else 8);
            hdr = 2 + ext + (if masked then 4 else 0)
        in if length buf < hdr then (None, 0)
           else
             let len = (if len7 < 126 then len7 else be_nat (take ext (drop 2 buf)))
             in if length buf < hdr + len then (None, 0)
                else
                  let maskKey = take 4 (drop (2 + ext) buf);
                      raw = take len (drop hdr buf)
                  in (Some (Frame fin opcode (if masked then unmask junk maskKey raw else raw)),
                      hdr + len))"

text \<open>
  Modelled from the spec: the masking a client applies to a frame before sending it, which
  the round trip of section 8 applies to the encoder's output (the repository has no
  client). The mask flag is set, the mask key follows the length, and the payload is XOR-ed
  with the key, which is what \<open>unmask\<close> computes.
\<close>

definition client_mask :: "(nat \<Rightarrow> byte) \<Rightarrow> buffer \<Rightarrow> buffer \<Rightarrow> buffer" where
  "client_mask junk maskKey frm =
     (let len7 = unat (frm ! 1) mod 128;
          hdr = 2 + (if len7 < 126 then 0 else if len7 = 126 then 2 else 8)
      in take hdr (frm[1 := of_nat (len7 + 128)]) @ maskKey @ unmask junk maskKey (drop hdr frm))"

text \<open>
  Modelled from the spec: the round trip of section 8, which is encode, mask as a client
  would, decode. The result is \<open>None\<close> when the encoder throws, and otherwise what the
  decoder returns: the frame, if complete, and the number of bytes consumed.
\<close>

definition roundtrip :: "(nat \<Rightarrow> byte) \<Rightarrow> buffer \<Rightarrow> int \<Rightarrow> buffer \<Rightarrow> (frame option \<times> nat) option" where
  "roundtrip junk maskKey opcode payload =
     (case encodeMessage junk opcode payload of
        Inl e \<Rightarrow> None
      | Inr frm \<Rightarrow> Some (tryDecodeFrame junk (client_mask junk maskKey frm)))"

section \<open>unmask on a store of buffers\<close>

text \<open>
  Buffers are objects: \<open>unmask\<close> receives two references and returns a third. The store
  holds the buffers that exist, a reference is an index into it, and \<open>new Buffer\<close> extends it.
\<close>

type_synonym store = "buffer list"
type_synonym ref = nat

definition store_new_Buffer :: "(nat \<Rightarrow> byte) \<Rightarrow> nat \<Rightarrow> store \<Rightarrow> ref \<times> store" where
  "store_new_Buffer junk n st = (length st, st @ [new_Buffer junk n])"

function unmask_store_loop :: "ref \<Rightarrow> ref \<Rightarrow> ref \<Rightarrow> nat \<Rightarrow> store \<Rightarrow> store" where
  "unmask_store_loop maskBytes data payload i st =
     (if i < length (st ! data)
      then unmask_store_loop maskBytes data payload (Suc i)
             (st[payload := (st ! payload)
                   [i := to_operand (buf_get (st ! maskBytes) (i mod 4))
                           XOR to_operand (buf_get (st ! data) i)]])
      else st)"
  by pat_completeness auto
termination
proof (relation "measure (\<lambda>(maskBytes, data, payload, i, st). length (st ! data) - i)")
  show "wf (measure (\<lambda>(maskBytes, data, payload, i, st). length (st ! data) - i))"
    by simp
next
  fix maskBytes data payload :: ref and i :: nat and st :: store
  assume lt: "i < length (st ! data)"
  let ?v = "to_operand (buf_get (st ! maskBytes) (i mod 4)) XOR to_operand (buf_get (st ! data) i)"
  have "length (st[payload := (st ! payload)[i := ?v]] ! data) = length (st ! data)"
  proof (cases "data = payload \<and> payload < length st")
    case True
    then show ?thesis by simp
  next
    case False
    then show ?thesis by (cases "data = payload") (simp_all add: list_update_beyond)
  qed
  with lt show "((maskBytes, data, payload, Suc i, st[payload := (st ! payload)[i := ?v]]),
                 (maskBytes, data, payload, i, st))
                \<in> measure (\<lambda>(maskBytes, data, payload, i, st). length (st ! data) - i)"
    by simp
qed

declare unmask_store_loop.simps [simp del]

definition unmask_store :: "(nat \<Rightarrow> byte) \<Rightarrow> ref \<Rightarrow> ref \<Rightarrow> store \<Rightarrow> ref \<times> store" where
  "unmask_store junk maskBytes data st =
     (case store_new_Buffer junk (length (st ! data)) st of
        (payload, st') \<Rightarrow> (payload, unmask_store_loop maskBytes data payload 0 st'))"

section \<open>Properties of unmask\<close>

lemma length_new_Buffer: "length (new_Buffer junk n) = n"
  by (simp add: new_Buffer_def)

lemma length_unmask_loop: "length (unmask_loop k d i p) = length p"
proof (induction k d i p rule: unmask_loop.induct)
  case (1 k d i p)
  show ?case
  proof (cases "i < length d")
    case True
    with "1" show ?thesis by (subst unmask_loop.simps) simp
  next
    case False
    then show ?thesis by (subst unmask_loop.simps) simp
  qed
qed

lemma unmask_loop_below: "j < i \<Longrightarrow> unmask_loop k d i p ! j = p ! j"
proof (induction k d i p rule: unmask_loop.induct)
  case (1 k d i p)
  show ?case
  proof (cases "i < length d")
    case True
    with "1" show ?thesis by (subst unmask_loop.simps) simp
  next
    case False
    then show ?thesis by (subst unmask_loop.simps) simp
  qed
qed

lemma unmask_loop_nth:
  "i \<le> j \<Longrightarrow> j < length d \<Longrightarrow> length p = length d \<Longrightarrow>
     unmask_loop k d i p ! j = to_operand (buf_get k (j mod 4)) XOR d ! j"
proof (induction k d i p rule: unmask_loop.induct)
  case (1 k d i p)
  from "1.prems" have lt: "i < length d" by simp
  show ?case
  proof (cases "i = j")
    case True
    have "unmask_loop k d i p ! j =
            unmask_loop k d (Suc i)
              (p[i := to_operand (buf_get k (i mod 4)) XOR to_operand (buf_get d i)]) ! j"
      using lt by (subst unmask_loop.simps) simp
    also have "\<dots> = (p[i := to_operand (buf_get k (i mod 4)) XOR to_operand (buf_get d i)]) ! j"
      using True by (simp add: unmask_loop_below)
    also have "\<dots> = to_operand (buf_get k (j mod 4)) XOR d ! j"
      using True lt "1.prems" by (simp add: buf_get_def to_operand_def)
    finally show ?thesis .
  next
    case False
    with "1.prems" have "Suc i \<le> j" by simp
    with "1.IH" [OF lt] "1.prems"
    have "unmask_loop k d (Suc i)
            (p[i := to_operand (buf_get k (i mod 4)) XOR to_operand (buf_get d i)]) ! j
          = to_operand (buf_get k (j mod 4)) XOR d ! j"
      by simp
    then show ?thesis using lt by (subst unmask_loop.simps) simp
  qed
qed

lemma length_unmask: "length (unmask junk k d) = length d"
  by (simp add: unmask_def length_unmask_loop length_new_Buffer)

lemma unmask_nth:
  "j < length d \<Longrightarrow> unmask junk k d ! j = to_operand (buf_get k (j mod 4)) XOR d ! j"
  by (simp add: unmask_def unmask_loop_nth length_new_Buffer)

lemma unmask_eq_map:
  "unmask junk k d = map (\<lambda>j. to_operand (buf_get k (j mod 4)) XOR d ! j) [0..<length d]"
  by (rule nth_equalityI) (simp_all add: length_unmask unmask_nth)

lemma unmask_twice: "unmask junk' maskBytes (unmask junk maskBytes data) = data"
proof (rule nth_equalityI)
  show "length (unmask junk' maskBytes (unmask junk maskBytes data)) = length data"
    by (simp add: length_unmask)
next
  fix j
  assume "j < length (unmask junk' maskBytes (unmask junk maskBytes data))"
  then have j: "j < length data" by (simp add: length_unmask)
  let ?m = "to_operand (buf_get maskBytes (j mod 4))"
  have "unmask junk' maskBytes (unmask junk maskBytes data) ! j
          = ?m XOR unmask junk maskBytes data ! j"
    using j by (simp add: unmask_nth length_unmask)
  also have "\<dots> = ?m XOR (?m XOR data ! j)"
    using j by (simp add: unmask_nth)
  also have "\<dots> = (?m XOR ?m) XOR data ! j"
    by (rule xor.assoc [symmetric])
  also have "\<dots> = data ! j"
    by simp
  finally show "unmask junk' maskBytes (unmask junk maskBytes data) ! j = data ! j" .
qed

text \<open>
  C4. Unmasking is an involution: applying \<open>unmask\<close> twice with the same mask key gives
  back the original payload. It holds for every mask key, the 4-byte keys of the protocol
  among them, for every payload, and whatever the fresh buffers contained before.
\<close>

theorem unmask_involution: "unmask junk' maskBytes (unmask junk maskBytes data) = data"
  by (rule unmask_twice)

section \<open>Properties of encodeMessage\<close>

lemma js_shl_1_16: "js_shl 1 16 = 65536"
  by (simp add: js_shl_def)

lemma js_or_0_126: "js_or 0 126 = 126" "js_or 0 127 = 127"
  by (simp_all add: js_or_def)

lemma js_or_recognized: "recognized opcode \<Longrightarrow> js_or 0x80 opcode = 128 + opcode"
  by (auto simp add: recognized_def js_or_def OP_CODES_TEXT_def OP_CODES_BINARY_def
      OP_CODES_CLOSE_def OP_CODES_PING_def OP_CODES_PONG_def)

lemma sint_small: "0 \<le> x \<Longrightarrow> x < 2147483648 \<Longrightarrow> sint (word_of_int x :: 32 word) = x"
  by (simp add: sint_sbintrunc' signed_take_bit_int_eq_self)

lemma js_or_0_small: "0 \<le> x \<Longrightarrow> x < 2147483648 \<Longrightarrow> js_or 0 x = x"
  by (simp add: js_or_def sint_small)

lemma writeUInt8_ok:
  "0 \<le> v \<Longrightarrow> v \<le> 255 \<Longrightarrow> off < length buf \<Longrightarrow>
     writeUInt8 v off buf = Inr (buf[off := word_of_int v])"
  by (simp add: writeUInt8_def)

lemma writeUInt8_large: "255 < v \<Longrightarrow> writeUInt8 v off buf = Inl ValueOutOfBounds"
  by (simp add: writeUInt8_def)

lemma writeUInt16BE_ok:
  "0 \<le> v \<Longrightarrow> v \<le> 65535 \<Longrightarrow> off + 2 \<le> length buf \<Longrightarrow>
     writeUInt16BE v off buf
       = Inr (buf[off := word_of_int (v div 256), off + 1 := word_of_int (v mod 256)])"
  by (simp add: writeUInt16BE_def)

lemma copy_after_header2:
  assumes "length buf = length payload + 2"
  shows "copy payload (buf[0 := a, 1 := b]) 2 = [a, b] @ payload"
proof -
  from assms obtain x y r where buf: "buf = x # y # r" and r: "length r = length payload"
    by (cases buf; simp; cases "tl buf"; auto)
  then show ?thesis by (simp add: copy_def)
qed

lemma copy_after_header4:
  assumes "length buf = length payload + 4"
  shows "copy payload (buf[0 := a, 1 := b, 2 := c, 3 := d]) 4 = [a, b, c, d] @ payload"
proof -
  from assms have "length buf = Suc (Suc (Suc (Suc (length payload))))" by simp
  then obtain w x y z r where buf: "buf = w # x # y # z # r" and r: "length r = length payload"
    by (auto simp add: length_Suc_conv)
  then show ?thesis by (simp add: copy_def numeral_2_eq_2 numeral_3_eq_3)
qed

lemma recognized_range: "recognized opcode \<Longrightarrow> 0 \<le> 128 + opcode \<and> 128 + opcode \<le> 255"
  by (auto simp add: recognized_def OP_CODES_TEXT_def OP_CODES_BINARY_def
      OP_CODES_CLOSE_def OP_CODES_PING_def OP_CODES_PONG_def)

lemma encodeMessage_short:
  assumes "recognized opcode" and "length payload < 126"
  shows "encodeMessage junk opcode payload
           = Inr ([word_of_int (128 + opcode), of_nat (length payload)] @ payload)"
proof -
  have b1: "js_or 0x80 opcode = 128 + opcode" using assms(1) by (rule js_or_recognized)
  have b2: "js_or 0 (int (length payload)) = int (length payload)"
    using assms(2) by (simp add: js_or_0_small)
  show ?thesis
    using assms(2) recognized_range [OF assms(1)]
    by (simp add: encodeMessage_def Let_def and_then_def b1 b2 writeUInt8_ok
        copy_after_header2 [simplified] length_new_Buffer)
qed

lemma encodeMessage_medium:
  assumes "recognized opcode" and "126 \<le> length payload" and "length payload < 65536"
  shows "encodeMessage junk opcode payload
           = Inr ([word_of_int (128 + opcode), 126, of_nat (length payload div 256),
                   of_nat (length payload mod 256)] @ payload)"
proof -
  let ?hi = "of_nat (length payload div 256) :: byte"
  let ?lo = "of_nat (length payload mod 256) :: byte"
  have b1: "js_or 0x80 opcode = 128 + opcode" using assms(1) by (rule js_or_recognized)
  have "int (length payload) div 256 = int (length payload div 256)" by simp
  then have hi: "word_of_int (int (length payload) div 256) = ?hi"
    by (simp only: of_int_of_nat_eq)
  have "int (length payload) mod 256 = int (length payload mod 256)" by (simp add: zmod_int)
  then have lo: "word_of_int (int (length payload) mod 256) = ?lo"
    by (simp only: of_int_of_nat_eq)
  show ?thesis
    using assms(2,3) recognized_range [OF assms(1)]
    by (simp add: encodeMessage_def Let_def and_then_def b1 js_or_0_126 js_shl_1_16
        writeUInt8_ok writeUInt16BE_ok hi lo copy_after_header4 [simplified] length_new_Buffer
        del: of_nat_div of_nat_mod)
qed

lemma encodeMessage_large:
  assumes "65536 \<le> length payload"
  shows "encodeMessage junk opcode payload = Inl ValueOutOfBounds"
proof -
  let ?buf = "new_Buffer junk (length payload + 2 + 8)"
  have "and_then (writeUInt8 (js_or 0x80 opcode) 0 ?buf) (\<lambda>buf.
          and_then (writeUInt8 127 1 buf) (\<lambda>buf.
          and_then (writeUInt8 0 2 buf) (\<lambda>buf.
          and_then (writeUInt8 (int (length payload)) 6 buf) (\<lambda>buf.
          Inr (copy payload buf 10))))) = Inl ValueOutOfBounds"
    using assms by (simp add: and_then_def writeUInt8_def length_new_Buffer)
  then show ?thesis
    using assms by (simp add: encodeMessage_def Let_def js_or_0_126 js_shl_1_16)
qed


text \<open>
  C5. For a payload of more than 65535 bytes (and fewer than \<open>2 ^ 32\<close>) the claim expects a
  frame with length field 127 and an 8-byte extended length. The code produces no frame:
  \<open>buf.writeUInt8(length, 6)\<close> is called with a length above 255, the range check of
  \<open>writeUInt8\<close> fails, and \<open>encodeMessage\<close> throws, for every opcode.
\<close>

theorem encodeMessage_extended_length_throws:
  "65535 < length payload \<Longrightarrow> length payload < 2 ^ 32 \<Longrightarrow>
     encodeMessage junk opcode payload = Inl ValueOutOfBounds"
  by (rule encodeMessage_large) simp

theorem encodeMessage_extended_length_throws_witness:
  "65535 < length (replicate 65536 (0 :: byte))
   \<and> length (replicate 65536 (0 :: byte)) < 2 ^ 32
   \<and> encodeMessage zero_filled OP_CODES_BINARY (replicate 65536 0) = Inl ValueOutOfBounds"
  using encodeMessage_extended_length_throws [of "replicate 65536 0" zero_filled OP_CODES_BINARY]
  by simp

text \<open>
  C2. The claim holds for payloads of fewer than 65536 bytes (\<open>encodeMessage_short\<close>,
  \<open>encodeMessage_medium\<close>: the frame is the header followed by the payload, with byte 0
  equal to \<open>0x80 | opcode\<close> and the length inline or as 126 and two big-endian bytes). It
  fails for longer ones: for a text payload of 65536 bytes there is no frame, the call throws.
\<close>

theorem encodeMessage_65536_no_frame:
  "encodeMessage junk OP_CODES_TEXT (replicate 65536 0) = Inl ValueOutOfBounds"
  by (rule encodeMessage_large) simp

section \<open>The round trip\<close>

lemma unat_byte: "n < 256 \<Longrightarrow> unat (of_nat n :: byte) = n"
  by (simp add: unat_of_nat)

lemma key4: "length (k :: buffer) = 4 \<Longrightarrow> \<exists>k0 k1 k2 k3. k = [k0, k1, k2, k3]"
  by (auto simp add: length_Suc_conv eval_nat_numeral)

lemma client_mask_short:
  assumes "n < 126"
  shows "client_mask junk key ([b0, of_nat n] @ payload)
           = [b0, of_nat (n + 128)] @ key @ unmask junk key payload"
  using assms by (simp add: client_mask_def Let_def unat_byte)

lemma client_mask_medium:
  "client_mask junk key ([b0, 126, hi, lo] @ payload)
     = [b0, 254, hi, lo] @ key @ unmask junk key payload"
  by (simp add: client_mask_def Let_def)

lemma decode_short:
  assumes "n < 126" and "unat b1 = n + 128" and "length key = 4" and "length body = n"
  shows "tryDecodeFrame junk ([b0, b1] @ key @ body)
           = (Some (Frame (128 \<le> unat b0) (int (unat b0 mod 16)) (unmask junk key body)), 6 + n)"
proof -
  from assms(3) obtain k0 k1 k2 k3 where k: "key = [k0, k1, k2, k3]"
    using key4 by blast
  show ?thesis
    using assms(1,4) by (simp add: tryDecodeFrame_def Let_def k assms(2))
qed

lemma decode_medium:
  assumes "126 \<le> n" and "n < 65536" and "length key = 4" and "length body = n"
    and "unat hi = n div 256" and "unat lo = n mod 256"
  shows "tryDecodeFrame junk ([b0, 254, hi, lo] @ key @ body)
           = (Some (Frame (128 \<le> unat b0) (int (unat b0 mod 16)) (unmask junk key body)), 8 + n)"
proof -
  from assms(3) obtain k0 k1 k2 k3 where k: "key = [k0, k1, k2, k3]"
    using key4 by blast
  have len: "be_nat [hi, lo] = n"
    by (simp add: be_nat_def assms(5,6))
  show ?thesis
    using assms(1,4) by (simp add: tryDecodeFrame_def Let_def k len)
qed

lemma roundtrip_below_65536:
  assumes "opcode = OP_CODES_TEXT \<or> opcode = OP_CODES_BINARY"
    and "length payload < 65536" and "length maskKey = 4"
  shows "roundtrip junk maskKey opcode payload
           = Some (Some (Frame True opcode payload),
                   length payload + (if length payload < 126 then 6 else 8))"
proof -
  let ?n = "length payload"
  let ?b0 = "word_of_int (128 + opcode) :: byte"
  let ?body = "unmask junk maskKey payload"
  have rec: "recognized opcode" using assms(1) by (auto simp add: recognized_def)
  have b0: "128 \<le> unat ?b0" "int (unat ?b0 mod 16) = opcode"
    using assms(1) by (auto simp add: OP_CODES_TEXT_def OP_CODES_BINARY_def)
  have body: "length ?body = ?n" by (rule length_unmask)
  have twice: "unmask junk maskKey ?body = payload" by (rule unmask_twice)
  show ?thesis
  proof (cases "?n < 126")
    case True
    have u: "unat (of_nat (?n + 128) :: byte) = ?n + 128"
      using True by (simp only: unat_byte)
    have "roundtrip junk maskKey opcode payload
            = Some (tryDecodeFrame junk ([?b0, of_nat (?n + 128)] @ maskKey @ ?body))"
      by (simp only: roundtrip_def encodeMessage_short [OF rec True] sum.case
          client_mask_short [OF True])
    also have "\<dots> = Some (Some (Frame True opcode payload), 6 + ?n)"
      by (simp only: decode_short [OF True u assms(3) body] b0 twice)
    finally show ?thesis using True by simp
  next
    case False
    then have ge: "126 \<le> ?n" by simp
    have hi: "unat (of_nat (?n div 256) :: byte) = ?n div 256"
      using assms(2) by (simp only: unat_byte)
    have lo: "unat (of_nat (?n mod 256) :: byte) = ?n mod 256"
      by (simp only: unat_byte)
    have "roundtrip junk maskKey opcode payload
            = Some (tryDecodeFrame junk
                ([?b0, 254, of_nat (?n div 256), of_nat (?n mod 256)] @ maskKey @ ?body))"
      by (simp only: roundtrip_def encodeMessage_medium [OF rec ge assms(2)] sum.case
          client_mask_medium)
    also have "\<dots> = Some (Some (Frame True opcode payload), 8 + ?n)"
      by (simp only: decode_medium [OF ge assms(2,3) body hi lo] b0 twice)
    finally show ?thesis using False by simp
  qed
qed

lemma roundtrip_from_65536:
  "65536 \<le> length payload \<Longrightarrow> roundtrip junk maskKey opcode payload = None"
  by (simp add: roundtrip_def encodeMessage_large)


text \<open>
  C3. For TEXT and BINARY payloads of fewer than 65536 bytes (0, 1, 125, 126 and 65535
  among them) the round trip gives back the opcode and the payload
  (\<open>roundtrip_below_65536\<close>). For a payload of 65536 bytes it gives nothing back: the
  encoder throws, for both opcodes.
\<close>

theorem roundtrip_65536_fails:
  "roundtrip junk maskKey OP_CODES_TEXT (replicate 65536 0) = None
   \<and> roundtrip junk maskKey OP_CODES_BINARY (replicate 65536 0) = None"
  by (simp add: roundtrip_from_65536)

section \<open>Properties of the connection\<close>

lemma closed_deliver: "closed c \<Longrightarrow> deliver c s = c"
  by (cases s) (simp_all add: on_socket_close_def)

lemma closed_trace: "closed c \<Longrightarrow> map closed (trace c ss) = replicate (Suc (length ss)) True"
  by (induction ss) (simp_all add: closed_deliver)

lemma close_listeners_deliver: "close_listeners (deliver c s) = close_listeners c"
  by (cases s) (simp_all add: on_socket_close_def emit_close_def)

lemma listeners_return_deliver: "listeners_return (deliver c s) = listeners_return c"
  by (simp add: listeners_return_def close_listeners_deliver)

lemma closed_after_deliver: "listeners_return c \<Longrightarrow> closed (deliver c s) \<or> deliver c s = c"
  by (cases s) (simp_all add: on_socket_close_def emit_close_def listeners_return_def)

lemma close_events_deliver:
  "close_events (deliver c s)
     = (if closed c \<or> s = SocketError then close_events c else Suc (close_events c))"
  by (cases s) (simp_all add: on_socket_close_def close_events_def emit_close_def is_close_def)

lemma close_events_closed_trace: "closed c \<Longrightarrow> close_events (last (trace c ss)) = close_events c"
  by (induction ss) (simp_all add: closed_deliver)

lemma last_trace_Cons: "last (trace c (s # ss)) = last (trace (deliver c s) ss)"
  by (cases ss) simp_all

lemma close_events_trace:
  "listeners_return c \<Longrightarrow> close_events (last (trace c ss)) \<le> Suc (close_events c)"
proof (induction ss arbitrary: c)
  case Nil
  then show ?case by simp
next
  case (Cons s ss)
  show ?case
  proof (cases "closed (deliver c s)")
    case True
    then have "close_events (last (trace (deliver c s) ss)) = close_events (deliver c s)"
      by (rule close_events_closed_trace)
    then show ?thesis by (simp add: last_trace_Cons close_events_deliver)
  next
    case False
    with closed_after_deliver [OF Cons.prems, of s] have "deliver c s = c" by simp
    with Cons.IH [OF Cons.prems] show ?thesis by (simp add: last_trace_Cons)
  qed
qed

lemma sorted_closed_trace: "sorted (map closed (trace c ss))"
proof (induction ss arbitrary: c)
  case Nil
  then show ?case by simp
next
  case (Cons s ss)
  show ?case
  proof (cases "closed c")
    case True
    then have "map closed (trace c (s # ss)) = replicate (Suc (length (s # ss))) True"
      by (rule closed_trace)
    then show ?thesis by (simp only: sorted_replicate)
  next
    case False
    with Cons.IH [of "deliver c s"] show ?thesis by (auto simp add: le_bool_def)
  qed
qed

lemma close_events_new: "close_events (WebSocketConnection headers sock) = 0"
  by (simp add: WebSocketConnection_def close_events_def Let_def)

lemma closed_new: "closed (WebSocketConnection headers sock) = False"
  by (simp add: WebSocketConnection_def Let_def)

lemma listeners_return_new: "listeners_return (WebSocketConnection headers sock)"
  by (simp add: WebSocketConnection_def listeners_return_def Let_def)

text \<open>
  When no listener throws, the \<open>close\<close> event is emitted at most once more, whatever the
  signals; the closed flag never goes from true to false, listeners or not.
\<close>

lemma close_at_most_once_when_listeners_return:
  "listeners_return c \<Longrightarrow>
     close_events (last (trace c sigs)) \<le> close_events c + 1
     \<and> sorted (map closed (trace c sigs))"
  using close_events_trace [of c sigs] by (simp add: sorted_closed_trace)

lemma close_at_most_once_without_listeners:
  "close_events (last (trace (WebSocketConnection headers sock) sigs)) \<le> 1"
  using close_events_trace [OF listeners_return_new, of headers sock sigs]
  by (simp add: close_events_new)

lemma close_twice_returning_listener:
  "map emitted (trace \<lparr>socket = [], buffer = [], closed = False, emitted = [],
                       close_listeners = [returning_listener]\<rparr>
                  [SocketClose False, SocketError, SocketClose True])
     = [[], [CloseEvent 1006], [CloseEvent 1006], [CloseEvent 1006]]"
  by (simp add: on_socket_close_def emit_close_def returning_listener_def)

text \<open>
  C7. The claim fails for a connection with a listener that throws. The handler calls
  \<open>this.emit('close', 1006)\<close> before \<open>this.closed = true\<close>; the exception of the listener
  leaves the handler in between, the flag stays false, and the next \<open>close\<close> signal of the
  socket emits the event again: after two signals the connection made by the constructor
  has emitted two \<open>close\<close> events and is not closed.
\<close>

theorem close_emitted_twice_when_listener_throws:
  "emitted (last (trace (on_close throwing_listener (WebSocketConnection headers sock))
                    [SocketClose False, SocketClose False]))
     = [CloseEvent 1006, CloseEvent 1006]
   \<and> close_events (last (trace (on_close throwing_listener (WebSocketConnection headers sock))
                            [SocketClose False, SocketClose False])) = 2
   \<and> \<not> closed (last (trace (on_close throwing_listener (WebSocketConnection headers sock))
                          [SocketClose False, SocketClose False]))"
  by (simp add: on_socket_close_def emit_close_def on_close_def throwing_listener_def
      WebSocketConnection_def Let_def close_events_def is_close_def)

text \<open>
  C6. On a closed connection \<open>send\<close> fails and the state of the connection, the bytes
  written to its socket among it, is unchanged; for a \<open>Buffer\<close> or a string the failure is
  \<open>ConnectionClosed\<close>, which nothing else raises.
\<close>

theorem send_closed_fails:
  "closed c \<Longrightarrow>
     send junk (JSBuffer b) c = (Some ConnectionClosed, c)
     \<and> send junk (JSString s) c = (Some ConnectionClosed, c)
     \<and> fst (send junk obj c) \<noteq> None \<and> snd (send junk obj c) = c"
  by (cases obj) (simp_all add: send_def doSend_def)


theorem send_closed_fails_witness:
  "closed \<lparr>socket = [], buffer = [], closed = True, emitted = [CloseEvent 1006],
           close_listeners = []\<rparr>
   \<and> send zero_filled (JSBuffer [1, 2, 3])
         \<lparr>socket = [], buffer = [], closed = True, emitted = [CloseEvent 1006],
           close_listeners = []\<rparr>
       = (Some ConnectionClosed,
          \<lparr>socket = [], buffer = [], closed = True, emitted = [CloseEvent 1006],
           close_listeners = []\<rparr>)"
  using send_closed_fails
    [of "\<lparr>socket = [], buffer = [], closed = True, emitted = [CloseEvent 1006],
           close_listeners = []\<rparr>"
        zero_filled "[1, 2, 3]" "[]" JSNull]
  by simp

text \<open>
  What \<open>send\<close> does with each kind of value: a \<open>Buffer\<close> goes to the framing step
  unchanged with opcode BINARY, a string as its UTF-8 encoding with opcode TEXT, and every
  other value throws \<open>CannotSend\<close> at once, leaving the connection and its socket as
  they were.
\<close>

lemma send_dispatch:
  "send junk (JSBuffer b) c = doSend junk OP_CODES_BINARY b c
   \<and> send junk (JSString s) c = doSend junk OP_CODES_TEXT (utf8_encode s) c
   \<and> send junk (JSNumber n) c = (Some CannotSend, c)
   \<and> send junk (JSBoolean t) c = (Some CannotSend, c)
   \<and> send junk JSUndefined c = (Some CannotSend, c)
   \<and> send junk JSNull c = (Some CannotSend, c)
   \<and> send junk JSObject c = (Some CannotSend, c)"
  by (simp add: send_def)

lemma utf8_encode_examples:
  "utf8_encode [0x41, 0xE9, 0x20AC, 0xD83D, 0xDE00, 0xD83D, 0x41, 0xDE00]
     = [0x41, 0xC3, 0xA9, 0xE2, 0x82, 0xAC, 0xF0, 0x9F, 0x98, 0x80, 0xEF, 0xBF, 0xBD, 0x41,
        0xEF, 0xBF, 0xBD]"
  by (simp add: Let_def)

lemma utf8_encode_ascii_replicate: "utf8_encode (replicate n 0x61) = replicate n 0x61"
  by (induction n) (simp_all add: Let_def)

lemma send_Buffer_framed:
  assumes "\<not> closed c" and "length b < 65536"
  shows "send junk (JSBuffer b) c
           = (None, c\<lparr>socket := socket c @
                [Bytes ((if length b < 126 then [0x82, of_nat (length b)]
                         else [0x82, 126, of_nat (length b div 256), of_nat (length b mod 256)])
                        @ b)]\<rparr>)"
proof (cases "length b < 126")
  case True
  then show ?thesis
    using assms(1)
    by (simp add: send_def doSend_def encodeMessage_short recognized_def OP_CODES_BINARY_def)
next
  case False
  then have ge: "126 \<le> length b" by simp
  have rec: "recognized OP_CODES_BINARY" by (simp add: recognized_def)
  have e: "encodeMessage junk 2 b
             = Inr ([0x82, 126, of_nat (length b div 256), of_nat (length b mod 256)] @ b)"
    using encodeMessage_medium [OF rec ge assms(2), of junk]
    by (simp add: OP_CODES_BINARY_def)
  show ?thesis
    using assms(1) False by (simp add: send_def doSend_def e OP_CODES_BINARY_def)
qed

lemma send_String_framed:
  assumes "\<not> closed c" and "length (utf8_encode s) < 65536"
  shows "send junk (JSString s) c
           = (None, c\<lparr>socket := socket c @
                [Bytes ((if length (utf8_encode s) < 126
                         then [0x81, of_nat (length (utf8_encode s))]
                         else [0x81, 126, of_nat (length (utf8_encode s) div 256),
                               of_nat (length (utf8_encode s) mod 256)])
                        @ utf8_encode s)]\<rparr>)"
proof (cases "length (utf8_encode s) < 126")
  case True
  then show ?thesis
    using assms(1)
    by (simp add: send_def doSend_def encodeMessage_short recognized_def OP_CODES_TEXT_def)
next
  case False
  then have ge: "126 \<le> length (utf8_encode s)" by simp
  have rec: "recognized OP_CODES_TEXT" by (simp add: recognized_def)
  have e: "encodeMessage junk 1 (utf8_encode s)
             = Inr ([0x81, 126, of_nat (length (utf8_encode s) div 256),
                     of_nat (length (utf8_encode s) mod 256)] @ utf8_encode s)"
    using encodeMessage_medium [OF rec ge assms(2), of junk]
    by (simp add: OP_CODES_TEXT_def)
  show ?thesis
    using assms(1) False by (simp add: send_def doSend_def e OP_CODES_TEXT_def)
qed

lemma send_large_throws:
  "\<not> closed c \<Longrightarrow> 65536 \<le> length b \<Longrightarrow> send junk (JSBuffer b) c = (Some ValueOutOfBounds, c)"
  "\<not> closed c \<Longrightarrow> 65536 \<le> length (utf8_encode s) \<Longrightarrow>
     send junk (JSString s) c = (Some ValueOutOfBounds, c)"
  by (simp_all add: send_def doSend_def encodeMessage_large)

text \<open>
  C8. On an open connection a \<open>Buffer\<close> or a string of fewer than 65536 bytes is written
  to the socket as one frame, BINARY with the bytes unchanged or TEXT with the UTF-8
  encoding (\<open>send_Buffer_framed\<close>, \<open>send_String_framed\<close>), and every other value throws
  \<open>CannotSend\<close> (\<open>send_dispatch\<close>). A \<open>Buffer\<close> of 65536 bytes and a string of 65536
  letters are not framed: on the connection the constructor made, \<open>send\<close> throws the
  range error of \<open>encodeMessage\<close> and writes nothing.
\<close>

theorem send_65536_bytes_not_framed:
  "send junk (JSBuffer (replicate 65536 0)) (WebSocketConnection headers sock)
     = (Some ValueOutOfBounds, WebSocketConnection headers sock)
   \<and> send junk (JSString (replicate 65536 0x61)) (WebSocketConnection headers sock)
     = (Some ValueOutOfBounds, WebSocketConnection headers sock)"
  by (simp add: send_large_throws closed_new utf8_encode_ascii_replicate)

lemma send_hi_example:
  "send junk (JSString [0x68, 0x69])
     \<lparr>socket = [], buffer = [], closed = False, emitted = [], close_listeners = []\<rparr>
   = (None, \<lparr>socket = [Bytes [0x81, 2, 0x68, 0x69]], buffer = [], closed = False,
              emitted = [], close_listeners = []\<rparr>)"
  by (simp add: send_String_framed Let_def)

section \<open>The handshake key of the sample request\<close>

text \<open>
  The evaluation of SHA-1 on the key of the example of RFC 6455 followed by the suffix of
  the code, step by step: the bytes, the padding, and for each of the two blocks the
  message schedule and the 80 rounds. Then the same with the GUID of the RFC.
\<close>

lemma sha1_schedule_numeral:
  "sha1_schedule (numeral k) ws =
     hd ws # sha1_schedule (pred_numeral k)
               (tl ws @ [rotl 1 (ws ! 13 XOR ws ! 8 XOR ws ! 2 XOR ws ! 0)])"
  by (simp add: numeral_eq_Suc)

lemma replicate_pred_numeral: "replicate (numeral k) x = x # replicate (pred_numeral k) x"
  by (simp add: numeral_eq_Suc)

lemma sample_code_bytes:
  "ascii_bytes (''dGhlIHNhbXBsZSBub25jZQ=='' @ KEY_SUFFIX) =
    [100, 71, 104, 108, 73, 72, 78, 104, 98, 88, 66, 115,
     90, 83, 66, 117, 98, 50, 53, 106, 90, 81, 61, 61,
     50, 53, 56, 69, 65, 70, 65, 53, 45, 69, 57, 49,
     52, 45, 52, 55, 68, 65, 45, 57, 53, 67, 65, 45,
     67, 53, 65, 66, 79, 68, 67, 56, 53, 66, 49, 49]"
  by (simp add: ascii_bytes_def KEY_SUFFIX_def)

lemma sample_code_pad:
  "sha1_pad
    [100, 71, 104, 108, 73, 72, 78, 104, 98, 88, 66, 115,
     90, 83, 66, 117, 98, 50, 53, 106, 90, 81, 61, 61,
     50, 53, 56, 69, 65, 70, 65, 53, 45, 69, 57, 49,
     52, 45, 52, 55, 68, 65, 45, 57, 53, 67, 65, 45,
     67, 53, 65, 66, 79, 68, 67, 56, 53, 66, 49, 49] =
    [100, 71, 104, 108, 73, 72, 78, 104, 98, 88, 66, 115,
     90, 83, 66, 117, 98, 50, 53, 106, 90, 81, 61, 61,
     50, 53, 56, 69, 65, 70, 65, 53, 45, 69, 57, 49,
     52, 45, 52, 55, 68, 65, 45, 57, 53, 67, 65, 45,
     67, 53, 65, 66, 79, 68, 67, 56, 53, 66, 49, 49,
     128, 0, 0, 0, 0, 0, 0, 0, 0, 0, 0, 0,
     0, 0, 0, 0, 0, 0, 0, 0, 0, 0, 0, 0,
     0, 0, 0, 0, 0, 0, 0, 0, 0, 0, 0, 0,
     0, 0, 0, 0, 0, 0, 0, 0, 0, 0, 0, 0,
     0, 0, 0, 0, 0, 0, 0, 0, 0, 0, 0, 0,
     0, 0, 0, 0, 0, 0, 1, 224]"
  by (simp add: sha1_pad_def bytes_of_u32_def replicate_pred_numeral)

lemma sample_code_words1:
  "words_of
    [100, 71, 104, 108, 73, 72, 78, 104, 98, 88, 66, 115,
     90, 83, 66, 117, 98, 50, 53, 106, 90, 81, 61, 61,
     50, 53, 56, 69, 65, 70, 65, 53, 45, 69, 57, 49,
     52, 45, 52, 55, 68, 65, 45, 57, 53, 67, 65, 45,
     67, 53, 65, 66, 79, 68, 67, 56, 53, 66, 49, 49,
     128, 0, 0, 0] =
    [1682401388, 1229475432, 1649951347, 1515405941, 1647457642, 1515273533,
     842348613, 1095123253, 759511345, 875377719, 1145122105, 893600045,
     1127563586, 1329873720, 893530417, 2147483648]"
  by simp

lemma sample_code_schedule1:
  "sha1_schedule 80
    [1682401388, 1229475432, 1649951347, 1515405941, 1647457642, 1515273533,
     842348613, 1095123253, 759511345, 875377719, 1145122105, 893600045,
     1127563586, 1329873720, 893530417, 2147483648] =
    [1682401388, 1229475432, 1649951347, 1515405941, 1647457642, 1515273533,
     842348613, 1095123253, 759511345, 875377719, 1145122105, 893600045,
     1127563586, 1329873720, 893530417, 2147483648, 3359416364, 619188790,
     2287383617, 4210769043, 1874115766, 3087734499, 2710706605, 901747561,
     845628814, 136903939, 1966773927, 1698100753, 601252748, 82544376,
     1941241154, 1694746023, 3989679670, 1260281289, 4021729263, 2484528303,
     1306343101, 3453184314, 3903753116, 714291936, 3464898634, 2640165519,
     663941193, 1989900312, 29631993, 391361625, 10043872, 177540846,
     3076328341, 2241365010, 517537771, 805829681, 1113471380, 3717607633,
     762067982, 4262161963, 130008719, 2254763286, 2366277857, 2900487678,
     2328842551, 2595489038, 1821587210, 4153633729, 1763471358, 3201397886,
     1279150782, 1356373440, 3059237286, 3928892053, 758161558, 1934189236,
     319686154, 1925814273, 1902502840, 3943097972, 1167818548, 3973668805,
     2272410669, 4280288382]"
  by (simp add: sha1_schedule_numeral rotl_def)

lemma sample_code_rounds1:
  "sha1_rounds 0
    [1682401388, 1229475432, 1649951347, 1515405941, 1647457642, 1515273533,
     842348613, 1095123253, 759511345, 875377719, 1145122105, 893600045,
     1127563586, 1329873720, 893530417, 2147483648, 3359416364, 619188790,
     2287383617, 4210769043, 1874115766, 3087734499, 2710706605, 901747561,
     845628814, 136903939, 1966773927, 1698100753, 601252748, 82544376,
     1941241154, 1694746023, 3989679670, 1260281289, 4021729263, 2484528303,
     1306343101, 3453184314, 3903753116, 714291936, 3464898634, 2640165519,
     663941193, 1989900312, 29631993, 391361625, 10043872, 177540846,
     3076328341, 2241365010, 517537771, 805829681, 1113471380, 3717607633,
     762067982, 4262161963, 130008719, 2254763286, 2366277857, 2900487678,
     2328842551, 2595489038, 1821587210, 4153633729, 1763471358, 3201397886,
     1279150782, 1356373440, 3059237286, 3928892053, 758161558, 1934189236,
     319686154, 1925814273, 1902502840, 3943097972, 1167818548, 3973668805,
     2272410669, 4280288382]
    (1732584193, 4023233417, 2562383102, 271733878, 3285377520) =
    (14332287, 3685743603, 2266481686, 2906481318, 1423388767)"
  by (simp add: rotl_def sha1_f_def sha1_k_def add32_def not32_def)

lemma sample_code_block1:
  "sha1_block (1732584193, 4023233417, 2562383102, 271733878, 3285377520)
    [100, 71, 104, 108, 73, 72, 78, 104, 98, 88, 66, 115,
     90, 83, 66, 117, 98, 50, 53, 106, 90, 81, 61, 61,
     50, 53, 56, 69, 65, 70, 65, 53, 45, 69, 57, 49,
     52, 45, 52, 55, 68, 65, 45, 57, 53, 67, 65, 45,
     67, 53, 65, 66, 79, 68, 67, 56, 53, 66, 49, 49,
     128, 0, 0, 0] =
    (1746916480, 3414009724, 533897492, 3178215196, 413798991)"
  by (simp only: sha1_block_def sample_code_words1 sample_code_schedule1 sample_code_rounds1)
     (simp add: add32_def)

lemma sample_code_words2:
  "words_of
    [0, 0, 0, 0, 0, 0, 0, 0, 0, 0, 0, 0,
     0, 0, 0, 0, 0, 0, 0, 0, 0, 0, 0, 0,
     0, 0, 0, 0, 0, 0, 0, 0, 0, 0, 0, 0,
     0, 0, 0, 0, 0, 0, 0, 0, 0, 0, 0, 0,
     0, 0, 0, 0, 0, 0, 0, 0, 0, 0, 0, 0,
     0, 0, 1, 224] =
    [0, 0, 0, 0, 0, 0,
     0, 0, 0, 0, 0, 0,
     0, 0, 0, 480]"
  by simp

lemma sample_code_schedule2:
  "sha1_schedule 80
    [0, 0, 0, 0, 0, 0,
     0, 0, 0, 0, 0, 0,
     0, 0, 0, 480] =
    [0, 0, 0, 0, 0, 0,
     0, 0, 0, 0, 0, 0,
     0, 0, 0, 480, 0, 0,
     960, 0, 0, 1920, 0, 960,
     3840, 0, 0, 7680, 0, 3264,
     15360, 1088, 0, 30720, 3840, 13056,
     61440, 3840, 0, 126720, 0, 52224,
     245760, 17280, 0, 495360, 65280, 206464,
     983040, 61440, 13056, 2031360, 0, 833536,
     3932160, 264960, 61440, 7929600, 1044480, 3376896,
     15728640, 1032960, 61440, 32488192, 0, 13369344,
     62976000, 4423680, 0, 126812160, 16711680, 52862464,
     251658240, 15790080, 3357696, 520062976, 0, 213420032,
     1006694400, 67783168]"
  by (simp add: sha1_schedule_numeral rotl_def)

lemma sample_code_rounds2:
  "sha1_rounds 0
    [0, 0, 0, 0, 0, 0,
     0, 0, 0, 0, 0, 0,
     0, 0, 0, 480, 0, 0,
     960, 0, 0, 1920, 0, 960,
     3840, 0, 0, 7680, 0, 3264,
     15360, 1088, 0, 30720, 3840, 13056,
     61440, 3840, 0, 126720, 0, 52224,
     245760, 17280, 0, 495360, 65280, 206464,
     983040, 61440, 13056, 2031360, 0, 833536,
     3932160, 264960, 61440, 7929600, 1044480, 3376896,
     15728640, 1032960, 61440, 32488192, 0, 13369344,
     62976000, 4423680, 0, 126812160, 16711680, 52862464,
     251658240, 15790080, 3357696, 520062976, 0, 213420032,
     1006694400, 67783168]
    (1746916480, 3414009724, 533897492, 3178215196, 413798991) =
    (685529912, 2830700723, 1822245277, 2850954185, 187607805)"
  by (simp add: rotl_def sha1_f_def sha1_k_def add32_def not32_def)

lemma sample_code_block2:
  "sha1_block (1746916480, 3414009724, 533897492, 3178215196, 413798991)
    [0, 0, 0, 0, 0, 0, 0, 0, 0, 0, 0, 0,
     0, 0, 0, 0, 0, 0, 0, 0, 0, 0, 0, 0,
     0, 0, 0, 0, 0, 0, 0, 0, 0, 0, 0, 0,
     0, 0, 0, 0, 0, 0, 0, 0, 0, 0, 0, 0,
     0, 0, 0, 0, 0, 0, 0, 0, 0, 0, 0, 0,
     0, 0, 1, 224] =
    (2432446392, 1949743151, 2356142769, 1734202085, 601406796)"
  by (simp only: sha1_block_def sample_code_words2 sample_code_schedule2 sample_code_rounds2)
     (simp add: add32_def)

lemma sample_code_blocks:
  "sha1_blocks 2 (1732584193, 4023233417, 2562383102, 271733878, 3285377520)
    [100, 71, 104, 108, 73, 72, 78, 104, 98, 88, 66, 115,
     90, 83, 66, 117, 98, 50, 53, 106, 90, 81, 61, 61,
     50, 53, 56, 69, 65, 70, 65, 53, 45, 69, 57, 49,
     52, 45, 52, 55, 68, 65, 45, 57, 53, 67, 65, 45,
     67, 53, 65, 66, 79, 68, 67, 56, 53, 66, 49, 49,
     128, 0, 0, 0, 0, 0, 0, 0, 0, 0, 0, 0,
     0, 0, 0, 0, 0, 0, 0, 0, 0, 0, 0, 0,
     0, 0, 0, 0, 0, 0, 0, 0, 0, 0, 0, 0,
     0, 0, 0, 0, 0, 0, 0, 0, 0, 0, 0, 0,
     0, 0, 0, 0, 0, 0, 0, 0, 0, 0, 0, 0,
     0, 0, 0, 0, 0, 0, 1, 224] =
    (2432446392, 1949743151, 2356142769, 1734202085, 601406796)"
proof -
  have "sha1_blocks (Suc (Suc 0)) (1732584193, 4023233417, 2562383102, 271733878, 3285377520)
    [100, 71, 104, 108, 73, 72, 78, 104, 98, 88, 66, 115,
     90, 83, 66, 117, 98, 50, 53, 106, 90, 81, 61, 61,
     50, 53, 56, 69, 65, 70, 65, 53, 45, 69, 57, 49,
     52, 45, 52, 55, 68, 65, 45, 57, 53, 67, 65, 45,
     67, 53, 65, 66, 79, 68, 67, 56, 53, 66, 49, 49,
     128, 0, 0, 0, 0, 0, 0, 0, 0, 0, 0, 0,
     0, 0, 0, 0, 0, 0, 0, 0, 0, 0, 0, 0,
     0, 0, 0, 0, 0, 0, 0, 0, 0, 0, 0, 0,
     0, 0, 0, 0, 0, 0, 0, 0, 0, 0, 0, 0,
     0, 0, 0, 0, 0, 0, 0, 0, 0, 0, 0, 0,
     0, 0, 0, 0, 0, 0, 1, 224] =
    (2432446392, 1949743151, 2356142769, 1734202085, 601406796)"
    by (simp add: sample_code_block1 sample_code_block2)
  then show ?thesis by (simp only: numeral_2_eq_2)
qed

lemma sample_code_sha1:
  "sha1
    [100, 71, 104, 108, 73, 72, 78, 104, 98, 88, 66, 115,
     90, 83, 66, 117, 98, 50, 53, 106, 90, 81, 61, 61,
     50, 53, 56, 69, 65, 70, 65, 53, 45, 69, 57, 49,
     52, 45, 52, 55, 68, 65, 45, 57, 53, 67, 65, 45,
     67, 53, 65, 66, 79, 68, 67, 56, 53, 66, 49, 49] =
    [144, 252, 47, 184, 116, 54, 184, 47, 140, 111, 226, 177,
     103, 93, 210, 229, 35, 216, 189, 76]"
  by (simp add: sha1_def sample_code_pad sample_code_blocks sha1_digest_def bytes_of_u32_def)

lemma sample_code_base64:
  "base64
    [144, 252, 47, 184, 116, 54, 184, 47, 140, 111, 226, 177,
     103, 93, 210, 229, 35, 216, 189, 76] =
    ''kPwvuHQ2uC+Mb+KxZ13S5SPYvUw=''"
  by (simp add: b64_char_def b64_alphabet_def)

lemma sample_rfc_bytes:
  "ascii_bytes (''dGhlIHNhbXBsZSBub25jZQ=='' @ RFC6455_GUID) =
    [100, 71, 104, 108, 73, 72, 78, 104, 98, 88, 66, 115,
     90, 83, 66, 117, 98, 50, 53, 106, 90, 81, 61, 61,
     50, 53, 56, 69, 65, 70, 65, 53, 45, 69, 57, 49,
     52, 45, 52, 55, 68, 65, 45, 57, 53, 67, 65, 45,
     67, 53, 65, 66, 48, 68, 67, 56, 53, 66, 49, 49]"
  by (simp add: ascii_bytes_def RFC6455_GUID_def)

lemma sample_rfc_pad:
  "sha1_pad
    [100, 71, 104, 108, 73, 72, 78, 104, 98, 88, 66, 115,
     90, 83, 66, 117, 98, 50, 53, 106, 90, 81, 61, 61,
     50, 53, 56, 69, 65, 70, 65, 53, 45, 69, 57, 49,
     52, 45, 52, 55, 68, 65, 45, 57, 53, 67, 65, 45,
     67, 53, 65, 66, 48, 68, 67, 56, 53, 66, 49, 49] =
    [100, 71, 104, 108, 73, 72, 78, 104, 98, 88, 66, 115,
     90, 83, 66, 117, 98, 50, 53, 106, 90, 81, 61, 61,
     50, 53, 56, 69, 65, 70, 65, 53, 45, 69, 57, 49,
     52, 45, 52, 55, 68, 65, 45, 57, 53, 67, 65, 45,
     67, 53, 65, 66, 48, 68, 67, 56, 53, 66, 49, 49,
     128, 0, 0, 0, 0, 0, 0, 0, 0, 0, 0, 0,
     0, 0, 0, 0, 0, 0, 0, 0, 0, 0, 0, 0,
     0, 0, 0, 0, 0, 0, 0, 0, 0, 0, 0, 0,
     0, 0, 0, 0, 0, 0, 0, 0, 0, 0, 0, 0,
     0, 0, 0, 0, 0, 0, 0, 0, 0, 0, 0, 0,
     0, 0, 0, 0, 0, 0, 1, 224]"
  by (simp add: sha1_pad_def bytes_of_u32_def replicate_pred_numeral)

lemma sample_rfc_words1:
  "words_of
    [100, 71, 104, 108, 73, 72, 78, 104, 98, 88, 66, 115,
     90, 83, 66, 117, 98, 50, 53, 106, 90, 81, 61, 61,
     50, 53, 56, 69, 65, 70, 65, 53, 45, 69, 57, 49,
     52, 45, 52, 55, 68, 65, 45, 57, 53, 67, 65, 45,
     67, 53, 65, 66, 48, 68, 67, 56, 53, 66, 49, 49,
     128, 0, 0, 0] =
    [1682401388, 1229475432, 1649951347, 1515405941, 1647457642, 1515273533,
     842348613, 1095123253, 759511345, 875377719, 1145122105, 893600045,
     1127563586, 809780024, 893530417, 2147483648]"
  by simp

lemma sample_rfc_schedule1:
  "sha1_schedule 80
    [1682401388, 1229475432, 1649951347, 1515405941, 1647457642, 1515273533,
     842348613, 1095123253, 759511345, 875377719, 1145122105, 893600045,
     1127563586, 809780024, 893530417, 2147483648] =
    [1682401388, 1229475432, 1649951347, 1515405941, 1647457642, 1515273533,
     842348613, 1095123253, 759511345, 875377719, 1145122105, 893600045,
     1127563586, 809780024, 893530417, 2147483648, 909942828, 619188790,
     2287383617, 117128338, 1874115766, 1175131875, 1502747054, 901747561,
     845628814, 4163435780, 1966773927, 1664546322, 3285607299, 116098809,
     1941241154, 2768487864, 365801013, 1394499013, 1874245584, 1813439660,
     1306343101, 903047494, 3903753116, 1251162832, 3464898740, 1096661662,
     663941193, 2392553959, 2042897861, 1666430109, 10043928, 2325024465,
     2942110617, 4254630878, 517537771, 4027055912, 1113470580, 93729216,
     2909551665, 2248896983, 2277492040, 1046804781, 2366289761, 887221813,
     181358856, 3266607578, 1821587210, 4153629601, 3910963649, 3201394082,
     1279150782, 1356423736, 3059252702, 439281382, 758339734, 4081671435,
     4077783581, 852382809, 1902502840, 2869297044, 3314851595, 3168292426,
     124912530, 4282382342]"
  by (simp add: sha1_schedule_numeral rotl_def)

lemma sample_rfc_rounds1:
  "sha1_rounds 0
    [1682401388, 1229475432, 1649951347, 1515405941, 1647457642, 1515273533,
     842348613, 1095123253, 759511345, 875377719, 1145122105, 893600045,
     1127563586, 809780024, 893530417, 2147483648, 909942828, 619188790,
     2287383617, 117128338, 1874115766, 1175131875, 1502747054, 901747561,
     845628814, 4163435780, 1966773927, 1664546322, 3285607299, 116098809,
     1941241154, 2768487864, 365801013, 1394499013, 1874245584, 1813439660,
     1306343101, 903047494, 3903753116, 1251162832, 3464898740, 1096661662,
     663941193, 2392553959, 2042897861, 1666430109, 10043928, 2325024465,
     2942110617, 4254630878, 517537771, 4027055912, 1113470580, 93729216,
     2909551665, 2248896983, 2277492040, 1046804781, 2366289761, 887221813,
     181358856, 3266607578, 1821587210, 4153629601, 3910963649, 3201394082,
     1279150782, 1356423736, 3059252702, 439281382, 758339734, 4081671435,
     4077783581, 852382809, 1902502840, 2869297044, 3314851595, 3168292426,
     124912530, 4282382342]
    (1732584193, 4023233417, 2562383102, 271733878, 3285377520) =
    (4102706214, 2203686369, 633413371, 1246086146, 2591277810)"
  by (simp add: rotl_def sha1_f_def sha1_k_def add32_def not32_def)

lemma sample_rfc_block1:
  "sha1_block (1732584193, 4023233417, 2562383102, 271733878, 3285377520)
    [100, 71, 104, 108, 73, 72, 78, 104, 98, 88, 66, 115,
     90, 83, 66, 117, 98, 50, 53, 106, 90, 81, 61, 61,
     50, 53, 56, 69, 65, 70, 65, 53, 45, 69, 57, 49,
     52, 45, 52, 55, 68, 65, 45, 57, 53, 67, 65, 45,
     67, 53, 65, 66, 48, 68, 67, 56, 53, 66, 49, 49,
     128, 0, 0, 0] =
    (1540323111, 1931952490, 3195796473, 1517820024, 1581688034)"
  by (simp only: sha1_block_def sample_rfc_words1 sample_rfc_schedule1 sample_rfc_rounds1)
     (simp add: add32_def)

lemma sample_rfc_words2:
  "words_of
    [0, 0, 0, 0, 0, 0, 0, 0, 0, 0, 0, 0,
     0, 0, 0, 0, 0, 0, 0, 0, 0, 0, 0, 0,
     0, 0, 0, 0, 0, 0, 0, 0, 0, 0, 0, 0,
     0, 0, 0, 0, 0, 0, 0, 0, 0, 0, 0, 0,
     0, 0, 0, 0, 0, 0, 0, 0, 0, 0, 0, 0,
     0, 0, 1, 224] =
    [0, 0, 0, 0, 0, 0,
     0, 0, 0, 0, 0, 0,
     0, 0, 0, 480]"
  by simp

lemma sample_rfc_schedule2:
  "sha1_schedule 80
    [0, 0, 0, 0, 0, 0,
     0, 0, 0, 0, 0, 0,
     0, 0, 0, 480] =
    [0, 0, 0, 0, 0, 0,
     0, 0, 0, 0, 0, 0,
     0, 0, 0, 480, 0, 0,
     960, 0, 0, 1920, 0, 960,
     3840, 0, 0, 7680, 0, 3264,
     15360, 1088, 0, 30720, 3840, 13056,
     61440, 3840, 0, 126720, 0, 52224,
     245760, 17280, 0, 495360, 65280, 206464,
     983040, 61440, 13056, 2031360, 0, 833536,
     3932160, 264960, 61440, 7929600, 1044480, 3376896,
     15728640, 1032960, 61440, 32488192, 0, 13369344,
     62976000, 4423680, 0, 126812160, 16711680, 52862464,
     251658240, 15790080, 3357696, 520062976, 0, 213420032,
     1006694400, 67783168]"
  by (simp add: sha1_schedule_numeral rotl_def)

lemma sample_rfc_rounds2:
  "sha1_rounds 0
    [0, 0, 0, 0, 0, 0,
     0, 0, 0, 0, 0, 0,
     0, 0, 0, 480, 0, 0,
     960, 0, 0, 1920, 0, 960,
     3840, 0, 0, 7680, 0, 3264,
     15360, 1088, 0, 30720, 3840, 13056,
     61440, 3840, 0, 126720, 0, 52224,
     245760, 17280, 0, 495360, 65280, 206464,
     983040, 61440, 13056, 2031360, 0, 833536,
     3932160, 264960, 61440, 7929600, 1044480, 3376896,
     15728640, 1032960, 61440, 32488192, 0, 13369344,
     62976000, 4423680, 0, 126812160, 16711680, 52862464,
     251658240, 15790080, 3357696, 520062976, 0, 213420032,
     1006694400, 67783168]
    (1540323111, 1931952490, 3195796473, 1517820024, 1581688034) =
    (1470814213, 1295715756, 3531229709, 1958756557, 1417158664)"
  by (simp add: rotl_def sha1_f_def sha1_k_def add32_def not32_def)

lemma sample_rfc_block2:
  "sha1_block (1540323111, 1931952490, 3195796473, 1517820024, 1581688034)
    [0, 0, 0, 0, 0, 0, 0, 0, 0, 0, 0, 0,
     0, 0, 0, 0, 0, 0, 0, 0, 0, 0, 0, 0,
     0, 0, 0, 0, 0, 0, 0, 0, 0, 0, 0, 0,
     0, 0, 0, 0, 0, 0, 0, 0, 0, 0, 0, 0,
     0, 0, 0, 0, 0, 0, 0, 0, 0, 0, 0, 0,
     0, 0, 1, 224] =
    (3011137324, 3227668246, 2432058886, 3476576581, 2998846698)"
  by (simp only: sha1_block_def sample_rfc_words2 sample_rfc_schedule2 sample_rfc_rounds2)
     (simp add: add32_def)

lemma sample_rfc_blocks:
  "sha1_blocks 2 (1732584193, 4023233417, 2562383102, 271733878, 3285377520)
    [100, 71, 104, 108, 73, 72, 78, 104, 98, 88, 66, 115,
     90, 83, 66, 117, 98, 50, 53, 106, 90, 81, 61, 61,
     50, 53, 56, 69, 65, 70, 65, 53, 45, 69, 57, 49,
     52, 45, 52, 55, 68, 65, 45, 57, 53, 67, 65, 45,
     67, 53, 65, 66, 48, 68, 67, 56, 53, 66, 49, 49,
     128, 0, 0, 0, 0, 0, 0, 0, 0, 0, 0, 0,
     0, 0, 0, 0, 0, 0, 0, 0, 0, 0, 0, 0,
     0, 0, 0, 0, 0, 0, 0, 0, 0, 0, 0, 0,
     0, 0, 0, 0, 0, 0, 0, 0, 0, 0, 0, 0,
     0, 0, 0, 0, 0, 0, 0, 0, 0, 0, 0, 0,
     0, 0, 0, 0, 0, 0, 1, 224] =
    (3011137324, 3227668246, 2432058886, 3476576581, 2998846698)"
proof -
  have "sha1_blocks (Suc (Suc 0)) (1732584193, 4023233417, 2562383102, 271733878, 3285377520)
    [100, 71, 104, 108, 73, 72, 78, 104, 98, 88, 66, 115,
     90, 83, 66, 117, 98, 50, 53, 106, 90, 81, 61, 61,
     50, 53, 56, 69, 65, 70, 65, 53, 45, 69, 57, 49,
     52, 45, 52, 55, 68, 65, 45, 57, 53, 67, 65, 45,
     67, 53, 65, 66, 48, 68, 67, 56, 53, 66, 49, 49,
     128, 0, 0, 0, 0, 0, 0, 0, 0, 0, 0, 0,
     0, 0, 0, 0, 0, 0, 0, 0, 0, 0, 0, 0,
     0, 0, 0, 0, 0, 0, 0, 0, 0, 0, 0, 0,
     0, 0, 0, 0, 0, 0, 0, 0, 0, 0, 0, 0,
     0, 0, 0, 0, 0, 0, 0, 0, 0, 0, 0, 0,
     0, 0, 0, 0, 0, 0, 1, 224] =
    (3011137324, 3227668246, 2432058886, 3476576581, 2998846698)"
    by (simp add: sample_rfc_block1 sample_rfc_block2)
  then show ?thesis by (simp only: numeral_2_eq_2)
qed

lemma sample_rfc_sha1:
  "sha1
    [100, 71, 104, 108, 73, 72, 78, 104, 98, 88, 66, 115,
     90, 83, 66, 117, 98, 50, 53, 106, 90, 81, 61, 61,
     50, 53, 56, 69, 65, 70, 65, 53, 45, 69, 57, 49,
     52, 45, 52, 55, 68, 65, 45, 57, 53, 67, 65, 45,
     67, 53, 65, 66, 48, 68, 67, 56, 53, 66, 49, 49] =
    [179, 122, 79, 44, 192, 98, 79, 22, 144, 246, 70, 6,
     207, 56, 89, 69, 178, 190, 196, 234]"
  by (simp add: sha1_def sample_rfc_pad sample_rfc_blocks sha1_digest_def bytes_of_u32_def)

lemma sample_rfc_base64:
  "base64
    [179, 122, 79, 44, 192, 98, 79, 22, 144, 246, 70, 6,
     207, 56, 89, 69, 178, 190, 196, 234] =
    ''s3pPLMBiTxaQ9kYGzzhZRbK+xOo=''"
  by (simp add: b64_char_def b64_alphabet_def)

lemma hashWebSocketKey_sample:
  "hashWebSocketKey (Some ''dGhlIHNhbXBsZSBub25jZQ=='') = ''kPwvuHQ2uC+Mb+KxZ13S5SPYvUw=''"
  by (simp only: hashWebSocketKey_def js_concat_operand_def option.case
      sample_code_bytes sample_code_sha1 sample_code_base64)

lemma rfc_accept_sample:
  "base64 (sha1 (ascii_bytes (''dGhlIHNhbXBsZSBub25jZQ=='' @ RFC6455_GUID)))
     = ''s3pPLMBiTxaQ9kYGzzhZRbK+xOo=''"
  by (simp only: sample_rfc_bytes sample_rfc_sha1 sample_rfc_base64)

lemma KEY_SUFFIX_letter_O:
  "KEY_SUFFIX ! 28 = CHR ''O'' \<and> RFC6455_GUID ! 28 = CHR ''0'' \<and> KEY_SUFFIX \<noteq> RFC6455_GUID"
  by (simp add: KEY_SUFFIX_def RFC6455_GUID_def)

text \<open>
  C1. For the key of the example of RFC 6455 the code computes
  \<open>kPwvuHQ2uC+Mb+KxZ13S5SPYvUw=\<close>, not the value \<open>s3pPLMBiTxaQ9kYGzzhZRbK+xOo=\<close> of the
  RFC: the suffix of the code has the letter O where the GUID has the digit 0. With the
  GUID of the RFC the same SHA-1 and base64 give the value of the RFC.
\<close>

theorem hashWebSocketKey_sample_not_RFC:
  "hashWebSocketKey (Some ''dGhlIHNhbXBsZSBub25jZQ=='') = ''kPwvuHQ2uC+Mb+KxZ13S5SPYvUw=''
   \<and> hashWebSocketKey (Some ''dGhlIHNhbXBsZSBub25jZQ=='') \<noteq> ''s3pPLMBiTxaQ9kYGzzhZRbK+xOo=''
   \<and> base64 (sha1 (ascii_bytes (''dGhlIHNhbXBsZSBub25jZQ=='' @ RFC6455_GUID)))
       = ''s3pPLMBiTxaQ9kYGzzhZRbK+xOo=''"
proof (intro conjI)
  show "hashWebSocketKey (Some ''dGhlIHNhbXBsZSBub25jZQ=='') = ''kPwvuHQ2uC+Mb+KxZ13S5SPYvUw=''"
    by (rule hashWebSocketKey_sample)
  show "hashWebSocketKey (Some ''dGhlIHNhbXBsZSBub25jZQ=='') \<noteq> ''s3pPLMBiTxaQ9kYGzzhZRbK+xOo=''"
    by (simp only: hashWebSocketKey_sample) simp
  show "base64 (sha1 (ascii_bytes (''dGhlIHNhbXBsZSBub25jZQ=='' @ RFC6455_GUID)))
          = ''s3pPLMBiTxaQ9kYGzzhZRbK+xOo=''"
    by (rule rfc_accept_sample)
qed

section \<open>The handshake response\<close>

lemma length_bytes_of_u32: "length (bytes_of_u32 w) = 4"
  by (simp add: bytes_of_u32_def)

lemma length_sha1: "length (sha1 m) = 20"
  by (simp add: sha1_def Let_def sha1_digest_def length_bytes_of_u32 split: prod.splits)

lemma base64_last: "length bs mod 3 = 2 \<Longrightarrow> base64 bs \<noteq> [] \<and> last (base64 bs) = CHR ''=''"
  by (induction bs rule: base64.induct) (simp_all add: Let_def)

lemma has_bare_LF_append: "has_bare_LF p xs \<Longrightarrow> has_bare_LF p (xs @ ys)"
  by (induction xs arbitrary: p) auto

lemma has_bare_LF_prefix:
  "has_bare_LF (last (p # xs)) ys \<Longrightarrow> has_bare_LF p (xs @ ys)"
  by (induction xs arbitrary: p) auto

lemma hash_last: "hashWebSocketKey k \<noteq> [] \<and> last (hashWebSocketKey k) = CHR ''=''"
  by (simp add: hashWebSocketKey_def base64_last length_sha1)

lemma handshake_bare_LF:
  assumes "key \<noteq> []" and "last key \<noteq> CR"
  shows "has_bare_LF p (handshake_response key)"
proof -
  let ?pre = "''HTTP/1.1 101 Web Socket Protocol Handshake '' @ [CR, LF] @
     ''      Upgrade: WebSocket '' @ [CR, LF] @
     ''      Connection: Upgrade '' @ [CR, LF] @
     ''      sec-websocket-accept: '' @ key"
  let ?post = "[LF] @ ''      '' @ [CR, LF, CR, LF]"
  have "last (p # ?pre) = last key" using assms(1) by simp
  then have "has_bare_LF (last (p # ?pre)) ?post" using assms(2) by simp
  then have "has_bare_LF p (?pre @ ?post)" by (rule has_bare_LF_prefix)
  then show ?thesis by (simp add: handshake_response_def)
qed


text \<open>
  C9. The constructor writes \<open>handshake_response\<close> of the computed key to the socket. In
  it the \<open>sec-websocket-accept\<close> line is not terminated by CRLF: the key is followed by a
  line feed alone, for every request.
\<close>

theorem handshake_accept_line_ends_with_bare_LF:
  "socket (WebSocketConnection headers sock)
     = sock @ [Text (handshake_response (hashWebSocketKey (headers ''sec-websocket-key'')))]
   \<and> has_bare_LF p (handshake_response (hashWebSocketKey k))"
  using hash_last [of k]
  by (simp add: WebSocketConnection_def Let_def handshake_bare_LF CR_def)


lemma handshake_sample:
  "socket (WebSocketConnection [''sec-websocket-key'' \<mapsto> ''dGhlIHNhbXBsZSBub25jZQ==''] [])
     = [Text (''HTTP/1.1 101 Web Socket Protocol Handshake '' @ [CR, LF] @
              ''      Upgrade: WebSocket '' @ [CR, LF] @
              ''      Connection: Upgrade '' @ [CR, LF] @
              ''      sec-websocket-accept: kPwvuHQ2uC+Mb+KxZ13S5SPYvUw='' @ [LF] @
              ''      '' @ [CR, LF, CR, LF])]"
  by (simp add: WebSocketConnection_def Let_def hashWebSocketKey_sample handshake_response_def)

section \<open>unmask and the store\<close>

lemma unmask_store_loop_append:
  "m < length st0 \<Longrightarrow> d < length st0 \<Longrightarrow> k = st0 ! m \<Longrightarrow> dt = st0 ! d \<Longrightarrow>
     unmask_store_loop m d (length st0) i (st0 @ [p]) = st0 @ [unmask_loop k dt i p]"
proof (induction k dt i p rule: unmask_loop.induct)
  case (1 k dt i p)
  let ?v = "to_operand (buf_get k (i mod 4)) XOR to_operand (buf_get dt i)"
  show ?case
  proof (cases "i < length dt")
    case True
    from "1.IH" [OF True "1.prems"]
    have IH: "unmask_store_loop m d (length st0) (Suc i) (st0 @ [p[i := ?v]])
                = st0 @ [unmask_loop k dt (Suc i) (p[i := ?v])]" .
    have "unmask_store_loop m d (length st0) i (st0 @ [p])
            = unmask_store_loop m d (length st0) (Suc i) (st0 @ [p[i := ?v]])"
      using True "1.prems"
      by (subst unmask_store_loop.simps) (simp add: nth_append)
    also note IH
    also have "unmask_loop k dt (Suc i) (p[i := ?v]) = unmask_loop k dt i p"
      using True by (subst (2) unmask_loop.simps) simp
    finally show ?thesis .
  next
    case False
    then show ?thesis
      using "1.prems"
      by (subst unmask_store_loop.simps, subst unmask_loop.simps) (simp add: nth_append)
  qed
qed


text \<open>
  C10. \<open>unmask\<close> returns a reference that did not exist before the call, to a buffer of
  the length of the data; every buffer that existed before, the data and the mask key among
  them, has the contents it had; the new buffer holds the unmasked data.
\<close>

theorem unmask_store_frame:
  assumes "maskBytes < length st" and "data < length st"
  shows "fst (unmask_store junk maskBytes data st) = length st
     \<and> length (snd (unmask_store junk maskBytes data st)) = Suc (length st)
     \<and> take (length st) (snd (unmask_store junk maskBytes data st)) = st
     \<and> snd (unmask_store junk maskBytes data st) ! maskBytes = st ! maskBytes
     \<and> snd (unmask_store junk maskBytes data st) ! data = st ! data
     \<and> length (snd (unmask_store junk maskBytes data st) ! length st) = length (st ! data)
     \<and> snd (unmask_store junk maskBytes data st) ! length st
           = unmask junk (st ! maskBytes) (st ! data)"
proof -
  have "unmask_store junk maskBytes data st
          = (length st, st @ [unmask junk (st ! maskBytes) (st ! data)])"
    using assms
    by (simp add: unmask_store_def store_new_Buffer_def unmask_def
        unmask_store_loop_append [OF assms refl refl])
  then show ?thesis using assms by (simp add: nth_append length_unmask)
qed

theorem unmask_store_frame_witness:
  "(0 :: nat) < length [[1, 2, 3, 4], [0x10, 0x20, 0x30, 0x40, 0x50 :: byte]]
   \<and> (1 :: nat) < length [[1, 2, 3, 4], [0x10, 0x20, 0x30, 0x40, 0x50 :: byte]]
   \<and> fst (unmask_store zero_filled 0 1 [[1, 2, 3, 4], [0x10, 0x20, 0x30, 0x40, 0x50]]) = 2
   \<and> take 2 (snd (unmask_store zero_filled 0 1 [[1, 2, 3, 4], [0x10, 0x20, 0x30, 0x40, 0x50]]))
       = [[1, 2, 3, 4], [0x10, 0x20, 0x30, 0x40, 0x50]]
   \<and> snd (unmask_store zero_filled 0 1 [[1, 2, 3, 4], [0x10, 0x20, 0x30, 0x40, 0x50]]) ! 2
       = [0x11, 0x22, 0x33, 0x44, 0x51]"
proof -
  have u: "unmask zero_filled [1, 2, 3, 4] [0x10, 0x20, 0x30, 0x40, 0x50]
             = [0x11, 0x22, 0x33, 0x44, 0x51]"
    by (simp add: unmask_eq_map upt_rec to_operand_def buf_get_def)
  show ?thesis
    using unmask_store_frame
      [of 0 "[[1, 2, 3, 4], [0x10, 0x20, 0x30, 0x40, 0x50]]" 1 zero_filled]
    by (simp add: u numeral_2_eq_2)
qed

end
